theory Spec2Isabelle
  imports Main "HOL-Library.AList"
begin

section \<open>Board state (class TicTacToe of Game.py)\<close>

text \<open>
  The cells of the grid are the one-character strings \<^verbatim>\<open>' '\<close>, \<^verbatim>\<open>'X'\<close> and \<^verbatim>\<open>'O'\<close>.
  The two marks are a datatype; a cell is a \<open>mark option\<close>, \<open>None\<close> being the blank
  \<^verbatim>\<open>' '\<close>. The attribute \<^verbatim>\<open>victor\<close> is Python's \<^verbatim>\<open>None\<close> or a mark.
\<close>

datatype mark = MarkX | MarkO

datatype error = IndexError | TypeError

record game =
  grid :: "mark option list"
  victor :: "mark option"

text \<open>\<^verbatim>\<open>__init__\<close>: nine blank cells, no victor.\<close>

definition init_game :: game where
  "init_game = \<lparr>grid = replicate 9 None, victor = None\<rparr>"

text \<open>
  Python list indexing \<^verbatim>\<open>xs[i]\<close>: a negative index counts from the end, anything
  outside \<open>-len .. len - 1\<close> raises IndexError. The result is the index into the list.
\<close>

definition py_index :: "'a list \<Rightarrow> int \<Rightarrow> error + nat" where
  "py_index xs i =
     (let n = int (length xs); j = (if i < 0 then n + i else i)
      in if 0 \<le> j \<and> j < n then Inr (nat j) else Inl IndexError)"

definition getitem :: "'a list \<Rightarrow> int \<Rightarrow> error + 'a" where
  "getitem xs i = (case py_index xs i of Inl e \<Rightarrow> Inl e | Inr j \<Rightarrow> Inr (xs ! j))"

definition setitem :: "'a list \<Rightarrow> int \<Rightarrow> 'a \<Rightarrow> error + 'a list" where
  "setitem xs i v = (case py_index xs i of Inl e \<Rightarrow> Inl e | Inr j \<Rightarrow> Inr (xs[j := v]))"

text \<open>\<^verbatim>\<open>free_spaces\<close>: \<^verbatim>\<open>[i for i, cell in enumerate(self.grid) if cell == ' ']\<close>.\<close>

definition free_spaces :: "game \<Rightarrow> nat list" where
  "free_spaces g = map fst (filter (\<lambda>(i, cell). cell = None) (enumerate 0 (grid g)))"

text \<open>\<^verbatim>\<open>has_space\<close>: \<^verbatim>\<open>' ' in self.grid\<close>.\<close>

definition has_space :: "game \<Rightarrow> bool" where
  "has_space g = (None \<in> set (grid g))"

text \<open>\<^verbatim>\<open>count_free\<close>: \<^verbatim>\<open>self.grid.count(' ')\<close>.\<close>

definition count_free :: "game \<Rightarrow> nat" where
  "count_free g = count_list (grid g) None"

text \<open>
  \<^verbatim>\<open>all(self.grid[i] == symbol for i in idxs)\<close>: the generator is consumed lazily, so
  the first cell that differs ends the test before any later index is read.
\<close>

fun all_cells :: "mark option list \<Rightarrow> int list \<Rightarrow> mark \<Rightarrow> error + bool" where
  "all_cells cells [] symbol = Inr True"
| "all_cells cells (i # idxs) symbol =
     (case getitem cells i of
        Inl e \<Rightarrow> Inl e
      | Inr c \<Rightarrow> if c = Some symbol then all_cells cells idxs symbol else Inr False)"

text \<open>
  \<^verbatim>\<open>check_win\<close>. \<^verbatim>\<open>//\<close> and \<^verbatim>\<open>%\<close> are floor division and its remainder, as
  \<open>div\<close> and \<open>mod\<close> on \<open>int\<close> are. The row test, then the column test, then (for an
  even \<open>pos\<close> only) the two diagonals.
\<close>

definition check_win :: "int \<Rightarrow> mark \<Rightarrow> game \<Rightarrow> error + bool" where
  "check_win pos symbol g =
     (let row = pos div 3 in
      case all_cells (grid g) (map (\<lambda>col. row * 3 + col) [0, 1, 2]) symbol of
        Inl e \<Rightarrow> Inl e
      | Inr True \<Rightarrow> Inr True
      | Inr False \<Rightarrow>
          (let col = pos mod 3 in
           case all_cells (grid g) (map (\<lambda>row. col + row * 3) [0, 1, 2]) symbol of
             Inl e \<Rightarrow> Inl e
           | Inr True \<Rightarrow> Inr True
           | Inr False \<Rightarrow>
               if pos mod 2 = 0 then
                 (case all_cells (grid g) [0, 4, 8] symbol of
                    Inl e \<Rightarrow> Inl e
                  | Inr True \<Rightarrow> Inr True
                  | Inr False \<Rightarrow>
                      (case all_cells (grid g) [2, 4, 6] symbol of
                         Inl e \<Rightarrow> Inl e
                       | Inr True \<Rightarrow> Inr True
                       | Inr False \<Rightarrow> Inr False))
               else Inr False))"

text \<open>
  \<^verbatim>\<open>place_marker\<close>: the returned pair is the boolean result and the board after the
  call; an exception is \<open>Inl\<close>.
\<close>

definition place_marker :: "int \<Rightarrow> mark \<Rightarrow> game \<Rightarrow> error + bool \<times> game" where
  "place_marker pos symbol g =
     (case getitem (grid g) pos of
        Inl e \<Rightarrow> Inl e
      | Inr c \<Rightarrow>
          if c = None then
            (case setitem (grid g) pos (Some symbol) of
               Inl e \<Rightarrow> Inl e
             | Inr cells \<Rightarrow>
                 (let g1 = g\<lparr>grid := cells\<rparr> in
                  case check_win pos symbol g1 of
                    Inl e \<Rightarrow> Inl e
                  | Inr won \<Rightarrow> Inr (True, if won then g1\<lparr>victor := Some symbol\<rparr> else g1)))
          else Inr (False, g))"

text \<open>
  The undo of the two search functions (\<^verbatim>\<open>game_state.grid[move] = ' '\<close>,
  \<^verbatim>\<open>game_state.victor = None\<close>), for a move taken from \<open>free_spaces\<close>.
\<close>

definition revert_move :: "nat \<Rightarrow> game \<Rightarrow> game" where
  "revert_move mv g = g\<lparr>grid := (grid g)[mv := None], victor := None\<rparr>"

section \<open>Search results, the transposition cache and the store\<close>

text \<open>
  A search value is a Python \<^verbatim>\<open>int\<close> or one of \<^verbatim>\<open>-float('inf')\<close>,
  \<^verbatim>\<open>float('inf')\<close>; \<^verbatim>\<open><\<close>, \<^verbatim>\<open><=\<close>, \<^verbatim>\<open>max\<close> and \<^verbatim>\<open>min\<close> compare them as
  numbers.
\<close>

datatype ext = NegInf | Fin int | PosInf

instantiation ext :: linorder
begin

fun less_eq_ext :: "ext \<Rightarrow> ext \<Rightarrow> bool" where
  "less_eq_ext NegInf y = True"
| "less_eq_ext (Fin a) NegInf = False"
| "less_eq_ext (Fin a) (Fin b) = (a \<le> b)"
| "less_eq_ext (Fin a) PosInf = True"
| "less_eq_ext PosInf NegInf = False"
| "less_eq_ext PosInf (Fin b) = False"
| "less_eq_ext PosInf PosInf = True"

definition less_ext :: "ext \<Rightarrow> ext \<Rightarrow> bool" where
  "less_ext x y = (x \<le> y \<and> \<not> y \<le> x)"

instance
proof
  fix x y z :: ext
  show "(x < y) = (x \<le> y \<and> \<not> y \<le> x)" by (simp add: less_ext_def)
  show "x \<le> x" by (cases x) simp_all
  show "x \<le> y \<Longrightarrow> y \<le> z \<Longrightarrow> x \<le> z"
    by (cases x; cases y; cases z) simp_all
  show "x \<le> y \<Longrightarrow> y \<le> x \<Longrightarrow> x = y"
    by (cases x; cases y) simp_all
  show "x \<le> y \<or> y \<le> x"
    by (cases x; cases y) auto
qed

end

text \<open>
  A search result is the dict \<^verbatim>\<open>{'move': ..., 'value': ...}\<close>. The dicts are mutable
  and shared: the search writes \<^verbatim>\<open>outcome['move']\<close> into the dict its recursive call
  returned, and the same dict may sit in a cache. So results live in a store and the
  search passes their addresses. The caches (\<^verbatim>\<open>memory\<close>) are dicts from
  \<^verbatim>\<open>tuple(grid)\<close> to a result; each cache created is a slot of the store as well, and
  the \<^verbatim>\<open>memory\<close> argument is \<open>None\<close> or the address of one. The single
  \<^verbatim>\<open>TicTacToe\<close> object the search works on is the field \<open>game_state\<close>.
\<close>

record result =
  move :: "nat option"
  val :: ext

record store =
  game_state :: game
  memories :: "(mark option list \<times> nat) list list"
  results :: "result list"

text \<open>A dict literal \<^verbatim>\<open>{'move': m, 'value': v}\<close> allocates a new result.\<close>

definition new_result :: "result \<Rightarrow> store \<Rightarrow> nat \<times> store" where
  "new_result r s = (length (results s), s\<lparr>results := results s @ [r]\<rparr>)"

text \<open>
  \<^verbatim>\<open>memory = memory or {}\<close>: \<^verbatim>\<open>None\<close> and the empty dict are both falsy, so either
  one is replaced by a newly created dict.
\<close>

definition memory_or_new :: "nat option \<Rightarrow> store \<Rightarrow> nat \<times> store" where
  "memory_or_new memory s =
     (case memory of
        None \<Rightarrow> (length (memories s), s\<lparr>memories := memories s @ [[]]\<rparr>)
      | Some m \<Rightarrow>
          if memories s ! m = [] then (length (memories s), s\<lparr>memories := memories s @ [[]]\<rparr>)
          else (m, s))"

text \<open>\<^verbatim>\<open>memory[state_key] = best\<close>.\<close>

definition memory_put :: "nat \<Rightarrow> mark option list \<Rightarrow> nat \<Rightarrow> store \<Rightarrow> store" where
  "memory_put m state_key best s =
     s\<lparr>memories := (memories s)[m := AList.update state_key best (memories s ! m)]\<rparr>"

text \<open>\<^verbatim>\<open>outcome['move'] = move\<close>.\<close>

definition set_move :: "nat \<Rightarrow> nat \<Rightarrow> store \<Rightarrow> store" where
  "set_move outcome mv s =
     s\<lparr>results := (results s)[outcome := (results s ! outcome)\<lparr>move := Some mv\<rparr>]\<rparr>"

text \<open>\<^verbatim>\<open>opponent = 'O' if player == 'X' else 'X'\<close>.\<close>

definition opponent :: "mark \<Rightarrow> mark" where
  "opponent player = (if player = MarkX then MarkO else MarkX)"

text \<open>
  The test that replaces \<^verbatim>\<open>best\<close>: \<^verbatim>\<open>outcome['value'] > best['value']\<close> in the
  maximizing branch, \<^verbatim>\<open>outcome['value'] < best['value']\<close> in the minimizing one.
\<close>

definition better :: "bool \<Rightarrow> ext \<Rightarrow> ext \<Rightarrow> bool" where
  "better is_maximizing outcome_value best_value =
     (if is_maximizing then outcome_value > best_value else outcome_value < best_value)"

section \<open>Minimax search (smart_move_finder)\<close>

text \<open>
  The body of \<^verbatim>\<open>for move in game_state.free_spaces()\<close>, which is the same in both
  branches up to the mark placed, the flag of the recursive call (both inside \<open>rec\<close> and
  \<open>symbol\<close>) and the direction of the comparison. \<open>rec\<close> is the recursive call; it may
  run out of fuel (\<open>None\<close>) or raise (\<open>Inl\<close>).
\<close>

fun smart_loop ::
  "(store \<Rightarrow> (error + nat \<times> store) option) \<Rightarrow> bool \<Rightarrow> mark \<Rightarrow> nat list \<Rightarrow> nat \<Rightarrow> store
    \<Rightarrow> (error + nat \<times> store) option" where
  "smart_loop rec is_maximizing symbol [] best s = Some (Inr (best, s))"
| "smart_loop rec is_maximizing symbol (mv # moves) best s =
     (case place_marker (int mv) symbol (game_state s) of
        Inl e \<Rightarrow> Some (Inl e)
      | Inr (placed, g1) \<Rightarrow>
          (case rec (s\<lparr>game_state := g1\<rparr>) of
             None \<Rightarrow> None
           | Some (Inl e) \<Rightarrow> Some (Inl e)
           | Some (Inr (outcome, s1)) \<Rightarrow>
               (let s2 = s1\<lparr>game_state := revert_move mv (game_state s1)\<rparr>;
                    s3 = set_move outcome mv s2;
                    best' = (if better is_maximizing (val (results s3 ! outcome))
                                  (val (results s3 ! best))
                             then outcome else best)
                in smart_loop rec is_maximizing symbol moves best' s3)))"

text \<open>
  \<^verbatim>\<open>smart_move_finder(game_state, is_maximizing, player, memory)\<close>. The first argument
  is fuel: the recursion depth allowed. The result is the address of the returned dict
  and the store after the call.
\<close>

primrec smart_move_finder ::
  "nat \<Rightarrow> bool \<Rightarrow> mark \<Rightarrow> nat option \<Rightarrow> store \<Rightarrow> (error + nat \<times> store) option" where
  "smart_move_finder 0 is_maximizing player memory s = None"
| "smart_move_finder (Suc fuel) is_maximizing player memory s =
     (case memory_or_new memory s of
        (mem, s0) \<Rightarrow>
          (let state_key = grid (game_state s0) in
           case map_of (memories s0 ! mem) state_key of
             Some cached \<Rightarrow> Some (Inr (cached, s0))
           | None \<Rightarrow>
               if victor (game_state s0) = Some player then
                 Some (Inr (new_result
                   \<lparr>move = None, val = Fin (1 * (int (count_free (game_state s0)) + 1))\<rparr> s0))
               else if victor (game_state s0) = Some (opponent player) then
                 Some (Inr (new_result
                   \<lparr>move = None, val = Fin (- 1 * (int (count_free (game_state s0)) + 1))\<rparr> s0))
               else if \<not> has_space (game_state s0) then
                 Some (Inr (new_result \<lparr>move = None, val = Fin 0\<rparr> s0))
               else if is_maximizing then
                 (case new_result \<lparr>move = None, val = NegInf\<rparr> s0 of
                    (best0, s1) \<Rightarrow>
                      (case smart_loop (smart_move_finder fuel False player (Some mem))
                              True player (free_spaces (game_state s1)) best0 s1 of
                         None \<Rightarrow> None
                       | Some (Inl e) \<Rightarrow> Some (Inl e)
                       | Some (Inr (best, s2)) \<Rightarrow>
                           Some (Inr (best, memory_put mem state_key best s2))))
               else
                 (case new_result \<lparr>move = None, val = PosInf\<rparr> s0 of
                    (best0, s1) \<Rightarrow>
                      (case smart_loop (smart_move_finder fuel True player (Some mem))
                              False (opponent player) (free_spaces (game_state s1)) best0 s1 of
                         None \<Rightarrow> None
                       | Some (Inl e) \<Rightarrow> Some (Inl e)
                       | Some (Inr (best, s2)) \<Rightarrow>
                           Some (Inr (best, memory_put mem state_key best s2))))))"

section \<open>Alpha-beta search (optimized_move_finder)\<close>

text \<open>
  The loop body with the bounds: after the update of \<^verbatim>\<open>best\<close> the maximizing branch
  sets \<^verbatim>\<open>alpha = max(alpha, best['value'])\<close>, the minimizing branch
  \<^verbatim>\<open>beta = min(beta, best['value'])\<close>, and \<^verbatim>\<open>if beta <= alpha: break\<close> leaves the loop.
\<close>

fun optimized_loop ::
  "(ext \<Rightarrow> ext \<Rightarrow> store \<Rightarrow> (error + nat \<times> store) option) \<Rightarrow> bool \<Rightarrow> mark \<Rightarrow> nat list
    \<Rightarrow> ext \<Rightarrow> ext \<Rightarrow> nat \<Rightarrow> store \<Rightarrow> (error + nat \<times> store) option" where
  "optimized_loop rec is_maximizing symbol [] alpha beta best s = Some (Inr (best, s))"
| "optimized_loop rec is_maximizing symbol (mv # moves) alpha beta best s =
     (case place_marker (int mv) symbol (game_state s) of
        Inl e \<Rightarrow> Some (Inl e)
      | Inr (placed, g1) \<Rightarrow>
          (case rec alpha beta (s\<lparr>game_state := g1\<rparr>) of
             None \<Rightarrow> None
           | Some (Inl e) \<Rightarrow> Some (Inl e)
           | Some (Inr (outcome, s1)) \<Rightarrow>
               (let s2 = s1\<lparr>game_state := revert_move mv (game_state s1)\<rparr>;
                    s3 = set_move outcome mv s2;
                    best' = (if better is_maximizing (val (results s3 ! outcome))
                                  (val (results s3 ! best))
                             then outcome else best);
                    alpha' = (if is_maximizing then max alpha (val (results s3 ! best'))
                              else alpha);
                    beta' = (if is_maximizing then beta
                             else min beta (val (results s3 ! best')))
                in if beta' \<le> alpha' then Some (Inr (best', s3))
                   else optimized_loop rec is_maximizing symbol moves alpha' beta' best' s3)))"

primrec optimized_move_finder ::
  "nat \<Rightarrow> bool \<Rightarrow> mark \<Rightarrow> ext \<Rightarrow> ext \<Rightarrow> nat option \<Rightarrow> store
    \<Rightarrow> (error + nat \<times> store) option" where
  "optimized_move_finder 0 is_maximizing player alpha beta memory s = None"
| "optimized_move_finder (Suc fuel) is_maximizing player alpha beta memory s =
     (case memory_or_new memory s of
        (mem, s0) \<Rightarrow>
          (let state_key = grid (game_state s0) in
           case map_of (memories s0 ! mem) state_key of
             Some cached \<Rightarrow> Some (Inr (cached, s0))
           | None \<Rightarrow>
               if victor (game_state s0) = Some player then
                 Some (Inr (new_result
                   \<lparr>move = None, val = Fin (1 * (int (count_free (game_state s0)) + 1))\<rparr> s0))
               else if victor (game_state s0) = Some (opponent player) then
                 Some (Inr (new_result
                   \<lparr>move = None, val = Fin (- 1 * (int (count_free (game_state s0)) + 1))\<rparr> s0))
               else if \<not> has_space (game_state s0) then
                 Some (Inr (new_result \<lparr>move = None, val = Fin 0\<rparr> s0))
               else if is_maximizing then
                 (case new_result \<lparr>move = None, val = NegInf\<rparr> s0 of
                    (best0, s1) \<Rightarrow>
                      (case optimized_loop
                              (\<lambda>a b. optimized_move_finder fuel False player a b (Some mem))
                              True player (free_spaces (game_state s1)) alpha beta best0 s1 of
                         None \<Rightarrow> None
                       | Some (Inl e) \<Rightarrow> Some (Inl e)
                       | Some (Inr (best, s2)) \<Rightarrow>
                           Some (Inr (best, memory_put mem state_key best s2))))
               else
                 (case new_result \<lparr>move = None, val = PosInf\<rparr> s0 of
                    (best0, s1) \<Rightarrow>
                      (case optimized_loop
                              (\<lambda>a b. optimized_move_finder fuel True player a b (Some mem))
                              False (opponent player) (free_spaces (game_state s1))
                              alpha beta best0 s1 of
                         None \<Rightarrow> None
                       | Some (Inl e) \<Rightarrow> Some (Inl e)
                       | Some (Inr (best, s2)) \<Rightarrow>
                           Some (Inr (best, memory_put mem state_key best s2))))))"

section \<open>Notions used to state the properties\<close>

text \<open>The eight lines of the board, and "the move at \<open>pos\<close> completes a line": some
  line through \<open>pos\<close> holds the mark in all three cells.\<close>

definition lines :: "nat list list" where
  "lines = [[0, 1, 2], [3, 4, 5], [6, 7, 8], [0, 3, 6], [1, 4, 7], [2, 5, 8], [0, 4, 8], [2, 4, 6]]"

definition completes_line :: "nat \<Rightarrow> mark \<Rightarrow> mark option list \<Rightarrow> bool" where
  "completes_line pos symbol cells =
     list_ex (\<lambda>l. pos \<in> set l \<and> list_all (\<lambda>i. cells ! i = Some symbol) l) lines"

text \<open>A diagonal held by one mark is recorded as that mark's win.\<close>

definition diagonals_recorded :: "game \<Rightarrow> bool" where
  "diagonals_recorded g =
     (\<forall>s. (list_all (\<lambda>i. grid g ! i = Some s) [0, 4, 8] \<longrightarrow> victor g = Some s) \<and>
          (list_all (\<lambda>i. grid g ! i = Some s) [2, 4, 6] \<longrightarrow> victor g = Some s))"

text \<open>The boards that calls of \<^verbatim>\<open>place_marker\<close> at positions 0..8 produce from a new
  \<^verbatim>\<open>TicTacToe()\<close>, whatever the marks and whether or not the players alternate.\<close>

inductive played :: "game \<Rightarrow> bool" where
  played_init: "played init_game"
| played_place: "played g \<Longrightarrow> 0 \<le> pos \<Longrightarrow> pos < 9 \<Longrightarrow> place_marker pos symbol g = Inr (b, g')
     \<Longrightarrow> played g'"

(*PROPERTIES*)
section \<open>Properties of the board\<close>

lemma len9: "length xs = 9 \<Longrightarrow> \<exists>c0 c1 c2 c3 c4 c5 c6 c7 c8. xs = [c0, c1, c2, c3, c4, c5, c6, c7, c8]"
  by (auto simp: length_Suc_conv eval_nat_numeral)

lemma init_game_cells:
  "init_game = \<lparr>grid = [None, None, None, None, None, None, None, None, None], victor = None\<rparr>"
  by (simp add: init_game_def eval_nat_numeral)

lemma getitem_nat: "i < length xs \<Longrightarrow> getitem xs (int i) = Inr (xs ! i)"
  by (simp add: getitem_def py_index_def)

lemma setitem_nat: "i < length xs \<Longrightarrow> setitem xs (int i) v = Inr (xs[i := v])"
  by (simp add: setitem_def py_index_def)

lemma free_spaces_iff: "mv \<in> set (free_spaces g) \<longleftrightarrow> mv < length (grid g) \<and> grid g ! mv = None"
  by (force simp: free_spaces_def in_set_enumerate_eq)

text \<open>On a nine-cell grid \<open>check_win\<close> never raises: it is the row test, the column test
  and, at an even position, the two diagonal tests.\<close>

lemma check_win_nine:
  assumes "length (grid g) = 9" "pos < 9"
  shows "check_win (int pos) symbol g = Inr (
     (list_all (\<lambda>i. grid g ! i = Some symbol) [pos div 3 * 3, pos div 3 * 3 + 1, pos div 3 * 3 + 2]) \<or>
     (list_all (\<lambda>i. grid g ! i = Some symbol) [pos mod 3, pos mod 3 + 3, pos mod 3 + 6]) \<or>
     (even pos \<and> (list_all (\<lambda>i. grid g ! i = Some symbol) [0, 4, 8] \<or>
                 list_all (\<lambda>i. grid g ! i = Some symbol) [2, 4, 6])))"
proof -
  obtain c0 c1 c2 c3 c4 c5 c6 c7 c8 where g: "grid g = [c0, c1, c2, c3, c4, c5, c6, c7, c8]"
    using len9[OF assms(1)] by blast
  have "pos \<in> {0, 1, 2, 3, 4, 5, 6, 7, 8}" using assms(2) by auto
  then show ?thesis
    by (elim insertE emptyE; simp add: check_win_def g getitem_def py_index_def)
qed

lemma place_marker_nat:
  assumes "length (grid g) = 9" "pos < 9"
  shows "place_marker (int pos) symbol g =
     (if grid g ! pos = None then
         Inr (True,
            if check_win (int pos) symbol (g\<lparr>grid := (grid g)[pos := Some symbol]\<rparr>) = Inr True
            then g\<lparr>grid := (grid g)[pos := Some symbol], victor := Some symbol\<rparr>
            else g\<lparr>grid := (grid g)[pos := Some symbol]\<rparr>)
      else Inr (False, g))"
  using assms check_win_nine[of "g\<lparr>grid := (grid g)[pos := Some symbol]\<rparr>" pos symbol]
  by (simp add: place_marker_def getitem_nat setitem_nat Let_def)

lemma check_win_completes:
  assumes "length (grid g) = 9" "pos < 9" "diagonals_recorded g" "grid g ! pos = None"
  shows "check_win (int pos) symbol (g\<lparr>grid := (grid g)[pos := Some symbol]\<rparr>) = Inr True
     \<Longrightarrow> completes_line pos symbol ((grid g)[pos := Some symbol]) \<or> victor g = Some symbol"
    and "completes_line pos symbol ((grid g)[pos := Some symbol]) \<Longrightarrow>
      check_win (int pos) symbol (g\<lparr>grid := (grid g)[pos := Some symbol]\<rparr>) = Inr True"
proof -
  obtain c0 c1 c2 c3 c4 c5 c6 c7 c8 where g: "grid g = [c0, c1, c2, c3, c4, c5, c6, c7, c8]"
    using len9[OF assms(1)] by blast
  have p: "pos \<in> {0, 1, 2, 3, 4, 5, 6, 7, 8}" using assms(2) by auto
  note cw = check_win_nine[of "g\<lparr>grid := (grid g)[pos := Some symbol]\<rparr>" pos symbol,
      simplified, OF assms(1,2)]
  show "check_win (int pos) symbol (g\<lparr>grid := (grid g)[pos := Some symbol]\<rparr>) = Inr True
     \<Longrightarrow> completes_line pos symbol ((grid g)[pos := Some symbol]) \<or> victor g = Some symbol"
    unfolding cw using p assms(3,4) apply -
    by (elim insertE emptyE;
        simp add: g completes_line_def lines_def diagonals_recorded_def; blast)
  show "completes_line pos symbol ((grid g)[pos := Some symbol]) \<Longrightarrow>
      check_win (int pos) symbol (g\<lparr>grid := (grid g)[pos := Some symbol]\<rparr>) = Inr True"
    unfolding cw using p assms(3,4) apply -
    by (elim insertE emptyE; simp add: g completes_line_def lines_def; blast?)
qed

lemma diagonals_recorded_place:
  assumes "length (grid g) = 9" "pos < 9" "diagonals_recorded g"
    "place_marker (int pos) symbol g = Inr (b, g')"
  shows "diagonals_recorded g' \<and> length (grid g') = 9"
proof -
  obtain c0 c1 c2 c3 c4 c5 c6 c7 c8 where g: "grid g = [c0, c1, c2, c3, c4, c5, c6, c7, c8]"
    using len9[OF assms(1)] by blast
  have p: "pos \<in> {0, 1, 2, 3, 4, 5, 6, 7, 8}" using assms(2) by auto
  note cw = check_win_nine[of "g\<lparr>grid := (grid g)[pos := Some symbol]\<rparr>" pos symbol,
      simplified, OF assms(1,2)]
  note pm = place_marker_nat[OF assms(1,2), of symbol, unfolded cw]
  show ?thesis
    using p assms(3) assms(4)[unfolded pm] g apply -
    by (elim insertE emptyE; auto simp add: diagonals_recorded_def split: if_splits)
qed

lemma played_inv: "played g \<Longrightarrow> diagonals_recorded g \<and> length (grid g) = 9"
proof (induction rule: played.induct)
  case played_init
  then show ?case by (simp add: init_game_def diagonals_recorded_def)
next
  case (played_place g pos symbol b g')
  then show ?case using diagonals_recorded_place[of g "nat pos" symbol b g'] by simp
qed

text \<open>
  Claim C4, as amended. Placing X at the centre sets \<open>victor\<close> to X when X holds the
  corners 0 and 8 (the diagonal, found by the even-position test), and also when X holds
  1 and 7: the cells 1, 4, 7 are the middle column, so that move wins as well.
\<close>

theorem place_center_completes_line:
  assumes "length (grid g) = 9" "grid g ! 4 = None"
    "(grid g ! 0 = Some MarkX \<and> grid g ! 8 = Some MarkX) \<or>
     (grid g ! 1 = Some MarkX \<and> grid g ! 7 = Some MarkX)"
  shows "\<exists>g'. place_marker 4 MarkX g = Inr (True, g') \<and> victor g' = Some MarkX"
proof -
  obtain c0 c1 c2 c3 c4 c5 c6 c7 c8 where g: "grid g = [c0, c1, c2, c3, c4, c5, c6, c7, c8]"
    using len9[OF assms(1)] by blast
  have cw: "check_win 4 MarkX (g\<lparr>grid := (grid g)[4 := Some MarkX]\<rparr>) = Inr True"
    using check_win_nine[of "g\<lparr>grid := (grid g)[4 := Some MarkX]\<rparr>" 4 MarkX] assms g by auto
  show ?thesis
    using place_marker_nat[of g 4 MarkX] assms(1,2) cw by simp
qed

theorem place_center_completes_line_witness:
  "\<exists>g'. place_marker 4 MarkX
      \<lparr>grid = [Some MarkX, None, None, None, None, None, None, None, Some MarkX],
       victor = None\<rparr> = Inr (True, g') \<and> victor g' = Some MarkX"
  using place_center_completes_line
    [of "\<lparr>grid = [Some MarkX, None, None, None, None, None, None, None, Some MarkX],
         victor = None\<rparr>"]
  by simp

text \<open>
  Claim C4 as stated fails in its second half: with X on 1 and 7 only, X at 4 completes
  the middle column and \<open>victor\<close> becomes X.
\<close>

theorem place_center_column_counterexample:
  "place_marker 4 MarkX
     \<lparr>grid = [None, Some MarkX, None, None, None, None, None, Some MarkX, None],
      victor = None\<rparr>
   = Inr (True,
     \<lparr>grid = [None, Some MarkX, None, None, Some MarkX, None, None, Some MarkX, None],
      victor = Some MarkX\<rparr>)"
  by (simp add: place_marker_def getitem_def setitem_def py_index_def check_win_def)

text \<open>
  Claim C7, as amended. On a board with no victor recorded, placing a mark on a free
  cell and then undoing it as the search does gives back the board, \<open>victor\<close> included.
\<close>

theorem place_then_revert_restores:
  assumes "length (grid g) = 9" "victor g = None" "mv \<in> set (free_spaces g)"
  shows "\<exists>g'. place_marker (int mv) symbol g = Inr (True, g') \<and> revert_move mv g' = g"
proof -
  have mv: "mv < 9" "grid g ! mv = None" using assms by (auto simp: free_spaces_iff)
  have "(grid g)[mv := None] = grid g" using mv by (metis list_update_id)
  then show ?thesis
    using place_marker_nat[OF assms(1) mv(1), of symbol] mv assms(2)
    by (auto simp: revert_move_def)
qed

theorem place_then_revert_restores_witness:
  "length (grid init_game) = 9 \<and> victor init_game = None \<and> 4 \<in> set (free_spaces init_game) \<and>
   (\<exists>g'. place_marker (int 4) MarkX init_game = Inr (True, g') \<and> revert_move 4 g' = init_game)"
proof -
  have h: "length (grid init_game) = 9" "victor init_game = None"
    "4 \<in> set (free_spaces init_game)"
    by (simp_all add: init_game_def free_spaces_iff)
  show ?thesis using h place_then_revert_restores[OF h, of MarkX] by simp
qed

text \<open>
  Claim C7 as stated ("for every board state") fails where a victor is already recorded:
  X has won on the top row, O (on 3 and 6) is placed on the free cell 5 and undone; the
  undo clears \<open>victor\<close>, which was X before.
\<close>

theorem place_then_revert_victor_counterexample:
  "place_marker 5 MarkO
     \<lparr>grid = [Some MarkX, Some MarkX, Some MarkX, Some MarkO, None, None, Some MarkO, None, None],
      victor = Some MarkX\<rparr>
   = Inr (True,
     \<lparr>grid = [Some MarkX, Some MarkX, Some MarkX, Some MarkO, None, Some MarkO, Some MarkO, None,
              None],
      victor = Some MarkX\<rparr>) \<and>
   revert_move 5
     \<lparr>grid = [Some MarkX, Some MarkX, Some MarkX, Some MarkO, None, Some MarkO, Some MarkO, None,
              None],
      victor = Some MarkX\<rparr>
   \<noteq> \<lparr>grid = [Some MarkX, Some MarkX, Some MarkX, Some MarkO, None, None, Some MarkO, None, None],
      victor = Some MarkX\<rparr>"
  by (simp add: place_marker_def getitem_def setitem_def py_index_def check_win_def
      revert_move_def)

text \<open>
  Claim C8. At a position 0..8 of a nine-cell board: on an occupied cell \<open>place_marker\<close>
  returns \<open>False\<close> and the board as it was, and raises nothing; on a free cell it writes
  the mark and returns \<open>True\<close>, and \<open>victor\<close> is either set to the mark or left as it was.
  On every board that calls of \<open>place_marker\<close> produce, it is set exactly when the move
  completes a line.
\<close>

theorem place_marker_in_range:
  assumes "length (grid g) = 9" "0 \<le> pos" "pos < 9"
  shows "(grid g ! nat pos \<noteq> None \<longrightarrow> place_marker pos symbol g = Inr (False, g)) \<and>
         (grid g ! nat pos = None \<longrightarrow>
            (\<exists>g'. place_marker pos symbol g = Inr (True, g') \<and>
                  grid g' = (grid g)[nat pos := Some symbol] \<and>
                  (victor g' = Some symbol \<or> victor g' = victor g) \<and>
                  (played g \<longrightarrow> victor g' =
                     (if completes_line (nat pos) symbol (grid g') then Some symbol
                      else victor g))))"
proof -
  have p: "nat pos < 9" "int (nat pos) = pos" using assms by auto
  note pm = place_marker_nat[OF assms(1) p(1), of symbol, unfolded p(2)]
  show ?thesis
  proof (intro conjI impI)
    assume "grid g ! nat pos \<noteq> None"
    then show "place_marker pos symbol g = Inr (False, g)"
      by (simp add: pm)
  next
    assume e: "grid g ! nat pos = None"
    show "\<exists>g'. place_marker pos symbol g = Inr (True, g') \<and>
                  grid g' = (grid g)[nat pos := Some symbol] \<and>
                  (victor g' = Some symbol \<or> victor g' = victor g) \<and>
                  (played g \<longrightarrow> victor g' =
                     (if completes_line (nat pos) symbol (grid g') then Some symbol
                      else victor g))"
      using e check_win_completes[OF assms(1) p(1) _ e, of symbol, unfolded p(2)]
        played_inv[of g]
      by (auto simp: pm)
  qed
qed

theorem place_marker_in_range_witness:
  "played init_game \<and>
   place_marker 4 MarkX init_game =
     Inr (True, \<lparr>grid = [None, None, None, None, Some MarkX, None, None, None, None],
                 victor = None\<rparr>) \<and>
   place_marker 4 MarkO
     \<lparr>grid = [None, None, None, None, Some MarkX, None, None, None, None], victor = None\<rparr> =
     Inr (False, \<lparr>grid = [None, None, None, None, Some MarkX, None, None, None, None],
                  victor = None\<rparr>)"
proof -
  have "\<exists>g'. place_marker 4 MarkX init_game = Inr (True, g') \<and>
          grid g' = (grid init_game)[4 := Some MarkX] \<and>
          victor g' = (if completes_line 4 MarkX (grid g') then Some MarkX else victor init_game)"
    using place_marker_in_range[of init_game 4 MarkX] played_init
    by (auto simp: init_game_cells)
  then have a: "place_marker 4 MarkX init_game =
     Inr (True, \<lparr>grid = [None, None, None, None, Some MarkX, None, None, None, None],
                 victor = None\<rparr>)"
    by (auto simp: init_game_cells completes_line_def lines_def)
  have b: "place_marker 4 MarkO
     \<lparr>grid = [None, None, None, None, Some MarkX, None, None, None, None], victor = None\<rparr> =
     Inr (False, \<lparr>grid = [None, None, None, None, Some MarkX, None, None, None, None],
                  victor = None\<rparr>)"
    using place_marker_in_range
      [of "\<lparr>grid = [None, None, None, None, Some MarkX, None, None, None, None],
            victor = None\<rparr>" 4 MarkO]
    by simp
  show ?thesis using a b played_init by simp
qed

text \<open>
  Claim C10. \<open>place_marker\<close> does not check its position. Above 8 or below -9 the index
  error of \<^verbatim>\<open>self.grid[pos]\<close> escapes; at -9..-1 Python's negative indexing makes the
  call work on the cell \<open>pos + 9\<close>: it returns whether that cell was free and, if so,
  writes the mark there.
\<close>

theorem place_marker_out_of_range:
  assumes "length (grid g) = 9"
  shows "(8 < pos \<or> pos < - 9 \<longrightarrow> place_marker pos symbol g = Inl IndexError) \<and>
         (- 9 \<le> pos \<and> pos \<le> - 1 \<longrightarrow>
            (\<exists>g'. place_marker pos symbol g = Inr (grid g ! nat (pos + 9) = None, g') \<and>
                  grid g' = (if grid g ! nat (pos + 9) = None
                             then (grid g)[nat (pos + 9) := Some symbol] else grid g)))"
proof (intro conjI impI)
  assume "8 < pos \<or> pos < - 9"
  then show "place_marker pos symbol g = Inl IndexError"
    using assms by (auto simp: place_marker_def getitem_def py_index_def)
next
  assume a: "- 9 \<le> pos \<and> pos \<le> - 1"
  obtain c0 c1 c2 c3 c4 c5 c6 c7 c8 where g: "grid g = [c0, c1, c2, c3, c4, c5, c6, c7, c8]"
    using len9[OF assms(1)] by blast
  have "pos \<in> {- 9, - 8, - 7, - 6, - 5, - 4, - 3, - 2, - 1}" using a by auto
  then show "\<exists>g'. place_marker pos symbol g = Inr (grid g ! nat (pos + 9) = None, g') \<and>
                  grid g' = (if grid g ! nat (pos + 9) = None
                             then (grid g)[nat (pos + 9) := Some symbol] else grid g)"
    using g apply -
    by (elim insertE emptyE;
        simp add: place_marker_def getitem_def setitem_def py_index_def check_win_def Let_def
          split: sum.splits bool.splits)
qed

theorem place_marker_out_of_range_witness:
  "place_marker 9 MarkX init_game = Inl IndexError \<and>
   place_marker (- 10) MarkX init_game = Inl IndexError \<and>
   (\<exists>g'. place_marker (- 1) MarkX init_game = Inr (True, g') \<and>
      grid g' = [None, None, None, None, None, None, None, None, Some MarkX])"
  using place_marker_out_of_range[of init_game 9 MarkX]
    place_marker_out_of_range[of init_game "- 10" MarkX]
    place_marker_out_of_range[of init_game "- 1" MarkX]
  by (simp add: init_game_cells)

end
